theory Spec2Isabelle
  imports Main "HOL-Library.Word"
begin

unbundle bit_operations_syntax

section \<open>SCTP output processing (net/sctp/output.c): data model\<close>

text \<open>
  The machine integers of the source keep their widths: \<open>__u16\<close>, \<open>__u32\<close> and
  \<open>unsigned int\<close> are 16- and 32-bit words, \<open>size_t\<close> is a 64-bit word (an LP64
  kernel), so every \<open>+\<close> and \<open>-\<close> below wraps as the C operator does, and a
  conversion between widths is written \<open>ucast\<close> (zero extension or truncation) or
  \<open>scast\<close> (sign extension of an \<open>int\<close>).

  Pointers are modelled by value: the packet holds its transport, the transport holds
  its (optional) association, so a write through \<open>packet->transport->asoc\<close> is an
  update of the nested record. A null \<open>transport->asoc\<close> is \<open>None\<close>. The identity
  of a chunk (the address that \<open>chunk == packet->auth\<close> compares) is the field
  \<open>chunk_addr\<close>.
\<close>

type_synonym u16 = "16 word"
type_synonym u32 = "32 word"
type_synonym size_t = "64 word"

datatype sctp_xmit_t =
  SCTP_XMIT_OK | SCTP_XMIT_PMTU_FULL | SCTP_XMIT_RWND_FULL | SCTP_XMIT_DELAY

text \<open>The chunk types the file dispatches on; every other type is \<open>SCTP_CID_OTHER\<close>.\<close>

datatype sctp_cid_t =
  SCTP_CID_DATA | SCTP_CID_SACK | SCTP_CID_COOKIE_ECHO | SCTP_CID_AUTH | SCTP_CID_OTHER

datatype sctp_frtx_t = SCTP_CAN_FRTX | SCTP_NEED_FRTX | SCTP_DONT_FRTX

text \<open>
  A kernel fault: the dereference of a null \<open>transport->asoc\<close>, or a \<open>list_add\<close> of
  a chunk that is still linked in the list.
\<close>

datatype fault = NULL_DEREF | LIST_FAULT

record sctp_datamsg =
  can_delay :: bool
  can_abandon :: bool

text \<open>
  \<open>chunk_hdr_length\<close> is \<open>ntohs(chunk->chunk_hdr->length)\<close>, \<open>skb_len\<close> is
  \<open>chunk->skb->len\<close>, \<open>chunk_auth\<close> is \<open>chunk->auth\<close>, \<open>chunk_asoc\<close> says whether
  \<open>chunk->asoc\<close> is set, \<open>chunk_transport\<close> is the address stored in
  \<open>chunk->transport\<close>.
  Modelled from the spec: \<open>data_size\<close> is the chunk attribute
  "for DATA the computed data_size", the value of \<open>sctp_data_size(chunk)\<close>, a helper
  that is not in this file; it has the type of the variable that receives it.
\<close>

record sctp_chunk =
  chunk_addr :: nat
  chunk_type :: sctp_cid_t
  chunk_hdr_length :: u16
  skb_len :: u32
  data_size :: size_t
  chunk_auth :: bool
  chunk_asoc :: bool
  fast_retransmit :: sctp_frtx_t
  msg :: sctp_datamsg
  resent :: bool
  sent_at :: "64 word"
  sent_count :: u32
  rtt_in_progress :: bool
  has_tsn :: bool
  has_ssn :: bool
  chunk_transport :: "nat option"

record sctp_outq =
  out_qlen :: u32
  outstanding_bytes :: u32

text \<open>
  The association fields this file reads or writes. \<open>nodelay\<close> is
  \<open>sctp_sk(asoc->base.sk)->nodelay\<close>, \<open>net_header_len\<close> is
  \<open>sctp_sk(asoc->base.sk)->pf->af->net_header_len\<close>, \<open>established\<close> is
  \<open>sctp_state(asoc, ESTABLISHED)\<close>, \<open>sack_timer_pending\<close> is
  \<open>timer_pending(&asoc->timers[SCTP_EVENT_TIMEOUT_SACK])\<close>,
  \<open>autoclose_timeout\<close> is \<open>asoc->timeouts[SCTP_EVENT_TIMEOUT_AUTOCLOSE]\<close>,
  \<open>autoclose_expires\<close> the expiry the AUTOCLOSE timer was last set to,
  \<open>pmtud_enable\<close> is \<open>asoc->param_flags & SPP_PMTUD_ENABLE\<close>.
\<close>

record sctp_association =
  asoc_pathmtu :: u32
  peer_rwnd :: u32
  peer_prsctp_capable :: bool
  peer_sack_generation :: bool
  peer_sack_needed :: bool
  peer_last_sent_to :: "nat option"
  rwnd :: u32
  a_rwnd :: u32
  outqueue :: sctp_outq
  established :: bool
  nodelay :: bool
  net_header_len :: size_t
  sack_timer_pending :: bool
  autoclose_timeout :: "64 word"
  autoclose_expires :: "64 word option"
  pmtud_enable :: bool
  stats_osacks :: "64 word"
  stats_opackets :: "64 word"
  out_no_routes :: "64 word"

text \<open>\<open>dst\<close> says whether \<open>tp->dst\<close> is set.\<close>

record sctp_transport =
  transport_addr :: nat
  pathmtu :: u32
  cwnd :: u32
  burst_limited :: u32
  flight_size :: u32
  rto_pending :: bool
  sack_generation :: bool
  dst :: bool
  asoc :: "sctp_association option"

record sctp_packet =
  source_port :: u16
  destination_port :: u16
  vtag :: u32
  chunk_list :: "sctp_chunk list"
  overhead :: size_t
  packet_size :: size_t
  max_size :: size_t
  transport :: sctp_transport
  has_cookie_echo :: bool
  has_sack :: bool
  has_auth :: bool
  has_data :: bool
  ipfragok :: bool
  auth :: "sctp_chunk option"

section \<open>Helpers declared in the headers\<close>

text \<open>
  Modelled from the spec: \<open>SCTP_PAD4\<close> is a macro of a header that is not in this
  file; the spec gives \<open>padded_length(c) = \<lceil>raw_len(c)/4\<rceil>\<cdot>4\<close>. It is defined on
  the mathematical value; each use converts the result to the C type that receives it.
\<close>

definition SCTP_PAD4 :: "nat \<Rightarrow> nat" where
  "SCTP_PAD4 s = ((s + 3) div 4) * 4"

text \<open>
  Modelled from the spec: \<open>sctp_chunk_is_data\<close> (a header inline) holds of the chunks
  of type DATA.
\<close>

definition sctp_chunk_is_data :: "sctp_chunk \<Rightarrow> bool" where
  "sctp_chunk_is_data chunk = (chunk_type chunk = SCTP_CID_DATA)"

text \<open>
  Modelled from the spec: \<open>sctp_packet_empty\<close> (a header inline) holds of a packet
  with no content, that is whose running size is still the size a reset gives it.
\<close>

definition sctp_packet_empty :: "sctp_packet \<Rightarrow> bool" where
  "sctp_packet_empty packet = (packet_size packet = overhead packet)"

text \<open>
  The sizes of the wire structures, from the wire format: the SCTP common header has 12
  bytes, a DATA chunk header 16 (chunk header of 4, then TSN, stream, SSN and payload
  protocol identifier), an IPv6 header 40.
\<close>

definition sizeof_sctphdr :: size_t where
  "sizeof_sctphdr = 12"

definition sizeof_sctp_data_chunk_t :: size_t where
  "sizeof_sctp_data_chunk_t = 16"

definition sizeof_ipv6hdr :: size_t where
  "sizeof_ipv6hdr = 40"

section \<open>Packet reset and initialisation\<close>

definition sctp_packet_reset :: "sctp_packet \<Rightarrow> sctp_packet" where
  "sctp_packet_reset packet =
     packet\<lparr>packet_size := overhead packet,
            has_cookie_echo := False,
            has_sack := False,
            has_data := False,
            has_auth := False,
            ipfragok := False,
            auth := None\<rparr>"

text \<open>
  \<open>sctp_packet_init\<close> writes every field but \<open>max_size\<close>, which keeps the value the
  caller's memory holds (\<open>packet0\<close>).
\<close>

definition sctp_packet_init ::
  "sctp_packet \<Rightarrow> sctp_transport \<Rightarrow> u16 \<Rightarrow> u16 \<Rightarrow> sctp_packet" where
  "sctp_packet_init packet0 tp sport dport =
     (let ovh = (case asoc tp of
                   Some a \<Rightarrow> net_header_len a
                 | None \<Rightarrow> sizeof_ipv6hdr) + sizeof_sctphdr;
          packet = packet0\<lparr>transport := tp,
                           source_port := sport,
                           destination_port := dport,
                           chunk_list := [],
                           overhead := ovh\<rparr>
      in (sctp_packet_reset packet)\<lparr>vtag := 0\<rparr>)"

section \<open>sctp_packet_will_fit\<close>

text \<open>
  The function returns the verdict and the packet, whose \<open>ipfragok\<close> it may set.
  \<open>chunk_len\<close> is a \<open>u16\<close>; sums and comparisons are those of \<open>size_t\<close>.
\<close>

definition will_fit_pmtu :: "sctp_packet \<Rightarrow> size_t" where
  "will_fit_pmtu packet =
     (case asoc (transport packet) of
        Some a \<Rightarrow> ucast (asoc_pathmtu a)
      | None \<Rightarrow> ucast (pathmtu (transport packet)))"

definition will_fit_maxsize :: "sctp_packet \<Rightarrow> size_t" where
  "will_fit_maxsize packet =
     (let maxsize = will_fit_pmtu packet - overhead packet
      in case auth packet of
           Some a \<Rightarrow> maxsize - ucast (word_of_nat (SCTP_PAD4 (unat (skb_len a))) :: u32)
         | None \<Rightarrow> maxsize)"

definition sctp_packet_will_fit ::
  "sctp_packet \<Rightarrow> sctp_chunk \<Rightarrow> u16 \<Rightarrow> sctp_xmit_t \<times> sctp_packet" where
  "sctp_packet_will_fit packet chunk chunk_len =
     (let psize = packet_size packet;
          pmtu = will_fit_pmtu packet;
          tp = transport packet
      in if psize + ucast chunk_len > pmtu then
           if sctp_packet_empty packet \<or> (\<not> has_data packet \<and> chunk_auth chunk) then
             (SCTP_XMIT_OK, packet\<lparr>ipfragok := True\<rparr>)
           else
             let r1 = (if ucast chunk_len > will_fit_maxsize packet
                       then SCTP_XMIT_PMTU_FULL else SCTP_XMIT_OK);
                 r2 = (if \<not> sctp_chunk_is_data chunk \<and> has_data packet
                       then SCTP_XMIT_PMTU_FULL else r1);
                 r3 = (if psize + ucast chunk_len > max_size packet
                       then SCTP_XMIT_PMTU_FULL else r2);
                 r4 = (if burst_limited tp = 0 \<and>
                          psize + ucast chunk_len > ucast (drop_bit 1 (cwnd tp))
                       then SCTP_XMIT_PMTU_FULL else r3);
                 r5 = (if burst_limited tp \<noteq> 0 \<and>
                          psize + ucast chunk_len > ucast (drop_bit 1 (burst_limited tp))
                       then SCTP_XMIT_PMTU_FULL else r4)
             in (r5, packet)
         else (SCTP_XMIT_OK, packet))"

section \<open>sctp_packet_can_append_data\<close>

text \<open>
  The function reads \<open>asoc->peer.rwnd\<close> first, with no test of \<open>asoc\<close>: on a
  transport without association it faults. The four local variables are of type
  \<open>size_t\<close>; \<open>chunk->skb->len + q->out_qlen\<close> is a sum of two \<open>unsigned int\<close>,
  the right-hand side of that comparison is computed in \<open>size_t\<close>.
\<close>

definition sctp_packet_can_append_data ::
  "sctp_packet \<Rightarrow> sctp_chunk \<Rightarrow> fault + sctp_xmit_t" where
  "sctp_packet_can_append_data packet chunk =
     (case asoc (transport packet) of
        None \<Rightarrow> Inl NULL_DEREF
      | Some a \<Rightarrow>
          let tp = transport packet;
              q = outqueue a;
              rwnd = (ucast (peer_rwnd a) :: size_t);
              inflight = (ucast (outstanding_bytes q) :: size_t);
              flight = (ucast (flight_size tp) :: size_t);
              datasize = data_size chunk
          in Inr (if datasize > rwnd \<and> inflight > 0 then SCTP_XMIT_RWND_FULL
                  else if fast_retransmit chunk \<noteq> SCTP_NEED_FRTX \<and> flight \<ge> ucast (cwnd tp)
                    then SCTP_XMIT_RWND_FULL
                  else if nodelay a then SCTP_XMIT_OK
                  else if \<not> sctp_packet_empty packet then SCTP_XMIT_OK
                  else if inflight = 0 then SCTP_XMIT_OK
                  else if \<not> established a then SCTP_XMIT_OK
                  else if (ucast (skb_len chunk + out_qlen q) :: size_t) >
                            ucast (pathmtu tp) - overhead packet - sizeof_sctp_data_chunk_t - 4
                    then SCTP_XMIT_OK
                  else if \<not> can_delay (msg chunk) then SCTP_XMIT_OK
                  else SCTP_XMIT_DELAY))"

section \<open>sctp_packet_append_data\<close>

text \<open>
  Modelled from the spec: \<open>sctp_chunk_assign_tsn\<close> and \<open>sctp_chunk_assign_ssn\<close> are
  helpers of another file ("Assign the next TSN and per-stream SSN via external
  allocators"); of their effect the model keeps that the chunk then has a TSN and an
  SSN.
\<close>

definition sctp_chunk_assign_tsn :: "sctp_chunk \<Rightarrow> sctp_chunk" where
  "sctp_chunk_assign_tsn chunk = chunk\<lparr>has_tsn := True\<rparr>"

definition sctp_chunk_assign_ssn :: "sctp_chunk \<Rightarrow> sctp_chunk" where
  "sctp_chunk_assign_ssn chunk = chunk\<lparr>has_ssn := True\<rparr>"

text \<open>
  The function returns the packet (whose transport and association it updates) and the
  chunk. \<open>flight_size\<close>, \<open>outstanding_bytes\<close> and \<open>rwnd\<close> are \<open>__u32\<close>: the
  \<open>size_t\<close> \<open>datasize\<close> is truncated when it is added to them.
\<close>

definition sctp_packet_append_data ::
  "sctp_packet \<Rightarrow> sctp_chunk \<Rightarrow> fault + (sctp_packet \<times> sctp_chunk)" where
  "sctp_packet_append_data packet chunk =
     (case asoc (transport packet) of
        None \<Rightarrow> Inl NULL_DEREF
      | Some a \<Rightarrow>
          let tp = transport packet;
              datasize = data_size chunk;
              rwnd = peer_rwnd a;
              q = outqueue a;
              rwnd' = (if datasize < ucast rwnd then rwnd - ucast datasize else 0);
              a' = a\<lparr>outqueue := q\<lparr>outstanding_bytes := outstanding_bytes q + ucast datasize\<rparr>,
                     peer_rwnd := rwnd'\<rparr>;
              tp' = tp\<lparr>flight_size := flight_size tp + ucast datasize, asoc := Some a'\<rparr>;
              chunk' = (if \<not> peer_prsctp_capable a
                        then chunk\<lparr>msg := (msg chunk)\<lparr>can_abandon := False\<rparr>\<rparr>
                        else chunk)
          in Inr (packet\<lparr>transport := tp'\<rparr>,
                  sctp_chunk_assign_ssn (sctp_chunk_assign_tsn chunk')))"

section \<open>Appending a chunk\<close>

text \<open>
  What one call of \<open>sctp_packet_append_chunk\<close> gets from outside: the chunk that
  \<open>sctp_make_auth\<close> and \<open>sctp_make_sack\<close> construct (\<open>None\<close> when they fail; each is
  called at most once per call) and the value of \<open>jiffies\<close>.
\<close>

record append_env =
  make_auth :: "sctp_chunk option"
  make_sack :: "sctp_chunk option"
  jiffies :: "64 word"

definition map_asoc ::
  "(sctp_association \<Rightarrow> sctp_association) \<Rightarrow> sctp_packet \<Rightarrow> sctp_packet" where
  "map_asoc f packet =
     packet\<lparr>transport := (transport packet)\<lparr>asoc := map_option f (asoc (transport packet))\<rparr>\<rparr>"

text \<open>The \<open>__u16 chunk_len\<close> of \<open>__sctp_packet_append_chunk\<close>.\<close>

definition chunk_len_of :: "sctp_chunk \<Rightarrow> u16" where
  "chunk_len_of chunk = word_of_nat (SCTP_PAD4 (unat (chunk_hdr_length chunk)))"

text \<open>
  The switch on the chunk type. \<open>chunk->asoc->stats.osacks\<close> is counted on the
  packet's association. \<open>packet->auth\<close> points to the chunk, whose \<open>transport\<close> is
  written after the switch: the model stores the chunk as it is after that write.
\<close>

definition append_chunk_account ::
  "append_env \<Rightarrow> sctp_packet \<Rightarrow> sctp_chunk \<Rightarrow> fault + (sctp_packet \<times> sctp_chunk)" where
  "append_chunk_account env packet chunk =
     (case chunk_type chunk of
        SCTP_CID_DATA \<Rightarrow>
          (case sctp_packet_append_data packet chunk of
             Inl f \<Rightarrow> Inl f
           | Inr (p, c) \<Rightarrow>
               Inr (p\<lparr>has_sack := True, has_auth := True, has_data := True\<rparr>,
                    c\<lparr>sent_at := jiffies env, sent_count := sent_count c + 1\<rparr>))
      | SCTP_CID_COOKIE_ECHO \<Rightarrow> Inr (packet\<lparr>has_cookie_echo := True\<rparr>, chunk)
      | SCTP_CID_SACK \<Rightarrow>
          Inr (if chunk_asoc chunk
               then map_asoc (\<lambda>a. a\<lparr>stats_osacks := stats_osacks a + 1\<rparr>)
                      (packet\<lparr>has_sack := True\<rparr>)
               else packet\<lparr>has_sack := True\<rparr>, chunk)
      | SCTP_CID_AUTH \<Rightarrow>
          Inr (packet\<lparr>has_auth := True,
                      auth := Some (chunk\<lparr>chunk_transport :=
                                Some (transport_addr (transport packet))\<rparr>)\<rparr>, chunk)
      | SCTP_CID_OTHER \<Rightarrow> Inr (packet, chunk))"

definition sctp_packet_append_chunk_raw ::
  "append_env \<Rightarrow> sctp_packet \<Rightarrow> sctp_chunk \<Rightarrow> fault + (sctp_xmit_t \<times> sctp_packet)" where
  "sctp_packet_append_chunk_raw env packet chunk =
     (let chunk_len = chunk_len_of chunk;
          (retval, packet1) = sctp_packet_will_fit packet chunk chunk_len
      in if retval \<noteq> SCTP_XMIT_OK then Inr (retval, packet1)
         else
           (case append_chunk_account env packet1 chunk of
              Inl f \<Rightarrow> Inl f
            | Inr (p, c) \<Rightarrow>
                Inr (retval,
                     p\<lparr>chunk_list := chunk_list p @
                          [c\<lparr>chunk_transport := Some (transport_addr (transport p))\<rparr>],
                       packet_size := packet_size p + ucast chunk_len\<rparr>)))"

text \<open>
  \<open>sctp_packet_append_chunk_raw\<close> is the static \<open>__sctp_packet_append_chunk\<close> (a
  name cannot start with an underscore here).
\<close>

definition sctp_packet_bundle_auth ::
  "append_env \<Rightarrow> sctp_packet \<Rightarrow> sctp_chunk \<Rightarrow> fault + (sctp_xmit_t \<times> sctp_packet)" where
  "sctp_packet_bundle_auth env pkt chunk =
     (case asoc (transport pkt) of
        None \<Rightarrow> Inr (SCTP_XMIT_OK, pkt)
      | Some a \<Rightarrow>
          if chunk_type chunk = SCTP_CID_AUTH \<or> has_auth pkt then Inr (SCTP_XMIT_OK, pkt)
          else if \<not> chunk_auth chunk then Inr (SCTP_XMIT_OK, pkt)
          else
            (case make_auth env of
               None \<Rightarrow> Inr (SCTP_XMIT_OK, pkt)
             | Some au \<Rightarrow> sctp_packet_append_chunk_raw env pkt au))"

definition sctp_packet_bundle_sack ::
  "append_env \<Rightarrow> sctp_packet \<Rightarrow> sctp_chunk \<Rightarrow> fault + (sctp_xmit_t \<times> sctp_packet)" where
  "sctp_packet_bundle_sack env pkt chunk =
     (if sctp_chunk_is_data chunk \<and> \<not> has_sack pkt \<and> \<not> has_cookie_echo pkt then
        (case asoc (transport pkt) of
           None \<Rightarrow> Inl NULL_DEREF
         | Some a \<Rightarrow>
             if sack_timer_pending a then
               if sack_generation (transport pkt) \<noteq> peer_sack_generation a
               then Inr (SCTP_XMIT_OK, pkt)
               else
                 let pkt1 = map_asoc (\<lambda>a. a\<lparr>a_rwnd := rwnd a\<rparr>) pkt
                 in (case make_sack env of
                       None \<Rightarrow> Inr (SCTP_XMIT_OK, pkt1)
                     | Some sack \<Rightarrow>
                         (case sctp_packet_append_chunk_raw env pkt1 sack of
                            Inl f \<Rightarrow> Inl f
                          | Inr (retval, pkt2) \<Rightarrow>
                              if retval \<noteq> SCTP_XMIT_OK then Inr (retval, pkt2)
                              else Inr (retval,
                                        map_asoc (\<lambda>a. a\<lparr>peer_sack_needed := False,
                                                         sack_timer_pending := False\<rparr>) pkt2)))
             else Inr (SCTP_XMIT_OK, pkt))
      else Inr (SCTP_XMIT_OK, pkt))"

definition sctp_packet_append_chunk ::
  "append_env \<Rightarrow> sctp_packet \<Rightarrow> sctp_chunk \<Rightarrow> fault + (sctp_xmit_t \<times> sctp_packet)" where
  "sctp_packet_append_chunk env packet chunk =
     (case (if sctp_chunk_is_data chunk
            then sctp_packet_can_append_data packet chunk
            else Inr SCTP_XMIT_OK) of
        Inl f \<Rightarrow> Inl f
      | Inr r0 \<Rightarrow>
          if r0 \<noteq> SCTP_XMIT_OK then Inr (r0, packet)
          else
            (case sctp_packet_bundle_auth env packet chunk of
               Inl f \<Rightarrow> Inl f
             | Inr (r1, p1) \<Rightarrow>
                 if r1 \<noteq> SCTP_XMIT_OK then Inr (r1, p1)
                 else
                   (case sctp_packet_bundle_sack env p1 chunk of
                      Inl f \<Rightarrow> Inl f
                    | Inr (r2, p2) \<Rightarrow>
                        if r2 \<noteq> SCTP_XMIT_OK then Inr (r2, p2)
                        else sctp_packet_append_chunk_raw env p2 chunk)))"

text \<open>
  A caller that offers chunks one after the other, each with the environment of its
  call, whatever the verdicts; it stops at a fault.
\<close>

fun append_chunks ::
  "sctp_packet \<Rightarrow> (append_env \<times> sctp_chunk) list \<Rightarrow> fault + sctp_packet" where
  "append_chunks packet [] = Inr packet"
| "append_chunks packet ((env, chunk) # rest) =
     (case sctp_packet_append_chunk env packet chunk of
        Inl f \<Rightarrow> Inl f
      | Inr (retval, packet') \<Rightarrow> append_chunks packet' rest)"

section \<open>sctp_packet_transmit\<close>

text \<open>
  The socket \<open>sk = chunk->skb->sk\<close>: \<open>sk_can_gso\<close> is the value of
  \<open>sk_can_gso(sk)\<close>, \<open>sk_err\<close> the error slot (an \<open>int\<close>, read with \<open>sint\<close>).
  All chunks of a packet belong to this one socket.
\<close>

record sock =
  sk_can_gso :: bool
  sk_err :: "32 word"

text \<open>
  What one call of \<open>sctp_packet_transmit\<close> gets from outside. \<open>head_alloc_ok\<close>: the
  \<open>alloc_skb\<close> of the head buffer succeeds. \<open>dst_valid\<close>: the cached route passes
  \<open>sctp_transport_dst_check\<close>; when it does not, \<open>sctp_transport_route\<close> leaves
  \<open>route_dst\<close> and \<open>route_pathmtu\<close> in the transport, and \<open>sctp_assoc_sync_pmtu\<close>
  leaves \<open>sync_pathmtu\<close> in the association. For the sub-packet counted \<open>n\<close>,
  \<open>nskb_alloc_ok n\<close>: its \<open>alloc_skb\<close> succeeds; \<open>gro_receive_ok n\<close>:
  \<open>skb_gro_receive\<close> returns 0; \<open>gso_segs_ok n\<close>: the \<open>WARN_ON_ONCE\<close> test on
  \<open>gso_segs\<close> is false. \<open>checksum_disable\<close> is the module parameter
  \<open>sctp_checksum_disable\<close>, \<open>dev_sctp_crc\<close> is
  \<open>dst->dev->features & NETIF_F_SCTP_CRC\<close>, \<open>dst_is_xfrm\<close> is \<open>dst_xfrm(dst)\<close>.
\<close>

record xmit_env =
  head_alloc_ok :: bool
  dst_valid :: bool
  route_dst :: bool
  route_pathmtu :: u32
  sync_pathmtu :: u32
  nskb_alloc_ok :: "nat \<Rightarrow> bool"
  gro_receive_ok :: "nat \<Rightarrow> bool"
  gso_segs_ok :: "nat \<Rightarrow> bool"
  checksum_disable :: bool
  dev_sctp_crc :: bool
  dst_is_xfrm :: bool
  xmit_jiffies :: "64 word"

text \<open>
  A buffer is modelled by the chunks copied into it, in order; the bytes, and with
  them the HMAC and the CRC32-C values, are not. \<open>segments\<close> holds one chunk list per
  SCTP packet built: the single packet, or the sub-packets of a GSO buffer.
  \<open>gso_segs\<close> is the \<open>unsigned short\<close> of the shared info, written for a GSO buffer
  only.
\<close>

datatype csum_t = CSUM_NOT_SET | CSUM_COMPUTED | CSUM_PARTIAL

record xmit_buf =
  sh_source :: u16
  sh_dest :: u16
  sh_vtag :: u32
  segments :: "sctp_chunk list list"
  is_gso :: bool
  gso_segs :: "u16 option"
  csum :: csum_t
  ignore_df :: bool

text \<open>
  What a call leaves behind: the value returned, the packet, the chunks handed to
  \<open>sctp_chunk_free\<close> in order, the number of buffers \<open>alloc_skb\<close> gave, and the buffer
  handed to \<open>tp->af_specific->sctp_xmit\<close>, if any.
\<close>

record emit_result =
  err :: "32 word"
  pkt :: sctp_packet
  freed :: "sctp_chunk list"
  skbs_allocated :: nat
  wire :: "xmit_buf option"

text \<open>\<open>SCTP_PAD4\<close> of an \<open>unsigned int\<close>.\<close>

definition pad4_u32 :: "u32 \<Rightarrow> u32" where
  "pad4_u32 n = word_of_nat (SCTP_PAD4 (unat n))"

text \<open>
  The \<open>list_for_each_entry\<close> that sizes a GSO sub-packet. \<open>None\<close> is \<open>goto nomem\<close>;
  otherwise the function returns \<open>pkt_size\<close> and \<open>auth_len\<close>. Both are \<open>int\<close>;
  \<open>auth_len + padded + packet->overhead\<close> is compared in \<open>size_t\<close>,
  \<open>pkt_size + padded\<close> as \<open>unsigned int\<close>.
\<close>

fun gso_pkt_size ::
  "u32 \<Rightarrow> size_t \<Rightarrow> sctp_chunk option \<Rightarrow> sctp_chunk list \<Rightarrow> u32 \<Rightarrow> u32 \<Rightarrow> (u32 \<times> u32) option"
  where
  "gso_pkt_size pmtu ovh au [] auth_len pkt_size = Some (pkt_size, auth_len)"
| "gso_pkt_size pmtu ovh au (chunk # rest) auth_len pkt_size =
     (let padded = pad4_u32 (skb_len chunk)
      in if map_option chunk_addr au = Some (chunk_addr chunk)
           then gso_pkt_size pmtu ovh au rest padded (pkt_size + padded)
         else if (scast (auth_len + padded) :: size_t) + ovh > ucast pmtu then None
         else if pkt_size + padded > pmtu then Some (pkt_size, auth_len)
         else gso_pkt_size pmtu ovh au rest auth_len (pkt_size + padded))"

text \<open>
  The \<open>list_for_each_entry_safe\<close> that moves chunks into the buffer until \<open>pkt_size\<close>
  is used up. It returns the chunks moved (as the writes to \<open>rtt_in_progress\<close> and the
  padding of the skb leave them), the chunks left in the list and \<open>tp->rto_pending\<close>.
\<close>

fun drain_chunks ::
  "sctp_chunk list \<Rightarrow> u32 \<Rightarrow> bool \<Rightarrow> sctp_chunk list \<times> sctp_chunk list \<times> bool" where
  "drain_chunks [] pkt_size rto = ([], [], rto)"
| "drain_chunks (chunk # rest) pkt_size rto =
     (let sample = (sctp_chunk_is_data chunk \<and> \<not> resent chunk \<and> \<not> rto);
          chunk1 = (if sample then chunk\<lparr>rtt_in_progress := True\<rparr> else chunk);
          chunk2 = chunk1\<lparr>skb_len := pad4_u32 (skb_len chunk1)\<rparr>;
          pkt_size' = pkt_size - pad4_u32 (skb_len chunk2)
      in if pkt_size' = 0 then ([chunk2], rest, rto \<or> sample)
         else (case drain_chunks rest pkt_size' (rto \<or> sample) of
                 (moved, left, rto') \<Rightarrow> (chunk2 # moved, left, rto')))"

text \<open>
  The local variables that live across the iterations of the \<open>do\<close> loop, with the
  packet. \<open>l_auth_set\<close> says whether the local pointer \<open>auth\<close> is set.
\<close>

record xmit_locals =
  l_packet :: sctp_packet
  l_auth_len :: u32
  l_auth_set :: bool
  l_has_data :: bool
  l_pktcount :: u32
  l_segments :: "sctp_chunk list list"
  l_freed :: "sctp_chunk list"
  l_allocated :: nat

text \<open>
  How an iteration ends. \<open>LIST_CORRUPT\<close>: \<open>list_add\<close> is called for the AUTH chunk
  while it is still linked in \<open>chunk_list\<close>, which leaves a cyclic list; the model
  stops there.
\<close>

datatype loop_exit = Done xmit_locals | Nomem xmit_locals | LIST_CORRUPT

datatype loop_step = Continue xmit_locals | Exit loop_exit

definition is_packet_auth :: "sctp_packet \<Rightarrow> sctp_chunk \<Rightarrow> bool" where
  "is_packet_auth packet chunk = (map_option chunk_addr (auth packet) = Some (chunk_addr chunk))"

text \<open>One iteration of the \<open>do\<close> loop.\<close>

definition xmit_iteration :: "xmit_env \<Rightarrow> bool \<Rightarrow> xmit_locals \<Rightarrow> loop_step" where
  "xmit_iteration env gso l =
     (let packet = l_packet l;
          tp = transport packet;
          pktcount = l_pktcount l + 1;
          sized =
            (if gso then
               (case gso_pkt_size (pathmtu tp) (overhead packet) (auth packet)
                       (chunk_list packet) (l_auth_len l) (ucast (overhead packet)) of
                  None \<Rightarrow> None
                | Some (pkt_size, auth_len) \<Rightarrow>
                    if nskb_alloc_ok env (unat pktcount)
                    then Some (pkt_size, auth_len, Suc (l_allocated l)) else None)
             else Some (ucast (packet_size packet), l_auth_len l, l_allocated l))
      in case sized of
           None \<Rightarrow> Exit (Nomem (l\<lparr>l_pktcount := pktcount\<rparr>))
         | Some (pkt_size, auth_len, allocated) \<Rightarrow>
             (case drain_chunks (chunk_list packet) (pkt_size - ucast (overhead packet))
                     (rto_pending tp) of
                (moved, left, rto) \<Rightarrow>
                  let freed1 = l_freed l @
                        filter (\<lambda>c. \<not> sctp_chunk_is_data c \<and> \<not> is_packet_auth packet c) moved;
                      au = (case auth packet of
                              None \<Rightarrow> None
                            | Some a \<Rightarrow>
                                (case find (\<lambda>c. chunk_addr c = chunk_addr a) moved of
                                   None \<Rightarrow> Some a
                                 | Some c \<Rightarrow> Some c));
                      l1 = l\<lparr>l_auth_len := auth_len,
                             l_auth_set := (l_auth_set l \<or> list_ex (is_packet_auth packet) moved),
                             l_has_data := (l_has_data l \<or> list_ex sctp_chunk_is_data moved),
                             l_pktcount := pktcount,
                             l_allocated := allocated\<rparr>;
                      tp1 = tp\<lparr>rto_pending := rto\<rparr>
                  in if au \<noteq> None \<and> left \<noteq> [] \<and> list_ex (is_packet_auth packet) left
                       then Exit LIST_CORRUPT
                     else
                       let packet1 =
                             (case au of
                                None \<Rightarrow> packet\<lparr>chunk_list := left, transport := tp1\<rparr>
                              | Some a \<Rightarrow>
                                  if left \<noteq> []
                                  then packet\<lparr>chunk_list := a # left, transport := tp1,
                                              auth := Some a\<rparr>
                                  else packet\<lparr>chunk_list := left, transport := tp1,
                                              auth := None\<rparr>);
                           freed2 = (case au of
                                       None \<Rightarrow> freed1
                                     | Some a \<Rightarrow> if left \<noteq> [] then freed1 else freed1 @ [a]);
                           l2 = l1\<lparr>l_packet := packet1, l_freed := freed2\<rparr>
                       in if \<not> gso then Exit (Done (l2\<lparr>l_segments := l_segments l @ [moved]\<rparr>))
                          else if \<not> gro_receive_ok env (unat pktcount) then Exit (Nomem l2)
                          else
                            let l3 = l2\<lparr>l_segments := l_segments l @ [moved]\<rparr>
                            in if \<not> gso_segs_ok env (unat pktcount) then Exit (Nomem l3)
                               else if chunk_list packet1 \<noteq> [] then Continue l3
                               else Exit (Done l3)))"

text \<open>
  The \<open>do\<close> loop. Nothing bounds the number of iterations when the sizes wrap around,
  so the loop is a partial function: \<open>None\<close> means that it does not end.
\<close>

partial_function (option) xmit_loop :: "xmit_env \<Rightarrow> bool \<Rightarrow> xmit_locals \<Rightarrow> loop_exit option"
  where
  "xmit_loop env gso l =
     (case xmit_iteration env gso l of
        Continue l' \<Rightarrow> xmit_loop env gso l'
      | Exit e \<Rightarrow> Some e)"

declare xmit_loop.simps [code]

text \<open>
  The label \<open>err\<close>: every chunk is unlinked, the chunks that are not DATA are freed,
  and the packet is reset. \<open>err\<close> is 0 at its declaration and is never assigned (the
  assignment of \<open>-EHOSTUNREACH\<close> is commented out).
\<close>

definition xmit_err :: "sctp_packet \<Rightarrow> sctp_chunk list \<Rightarrow> nat \<Rightarrow> emit_result" where
  "xmit_err packet freed0 allocated =
     \<lparr>err = 0,
      pkt = sctp_packet_reset (packet\<lparr>chunk_list := []\<rparr>),
      freed = freed0 @ filter (\<lambda>c. \<not> sctp_chunk_is_data c) (chunk_list packet),
      skbs_allocated = allocated,
      wire = None\<rparr>"

text \<open>
  The label \<open>nomem\<close>: an AUTH chunk that is recorded but not linked in the list is
  freed, then the head buffer is dropped and \<open>err\<close> follows.
\<close>

definition xmit_nomem :: "xmit_locals \<Rightarrow> emit_result" where
  "xmit_nomem l =
     (let packet = l_packet l
      in xmit_err packet
           (case auth packet of
              None \<Rightarrow> l_freed l
            | Some a \<Rightarrow>
                if list_ex (is_packet_auth packet) (chunk_list packet) then l_freed l
                else l_freed l @ [a])
           (l_allocated l))"

text \<open>
  After the loop: checksum, statistics, the AUTOCLOSE timer (which reads \<open>asoc\<close>
  without a test when DATA went out), the GSO fields, the hand-over and the reset.
\<close>

definition xmit_finish :: "xmit_env \<Rightarrow> bool \<Rightarrow> xmit_locals \<Rightarrow> fault + emit_result" where
  "xmit_finish env gso l =
     (let packet = l_packet l;
          tp = transport packet;
          cs = (if \<not> checksum_disable env \<or> gso then
                  (if \<not> gso \<and> (\<not> dev_sctp_crc env \<or> dst_is_xfrm env \<or> ipfragok packet)
                   then CSUM_COMPUTED else CSUM_PARTIAL)
                else CSUM_NOT_SET);
          a1 = map_option
                 (\<lambda>a. a\<lparr>stats_opackets := stats_opackets a + scast (l_pktcount l),
                         peer_last_sent_to := Some (transport_addr tp)\<rparr>) (asoc tp);
          buf = \<lparr>sh_source = source_port packet, sh_dest = destination_port packet,
                 sh_vtag = vtag packet, segments = l_segments l, is_gso = gso,
                 gso_segs = (if gso then Some (ucast (l_pktcount l)) else None),
                 csum = cs, ignore_df = ipfragok packet\<rparr>;
          done = (\<lambda>a. Inr \<lparr>err = 0,
                            pkt = sctp_packet_reset (packet\<lparr>transport := tp\<lparr>asoc := a\<rparr>\<rparr>),
                            freed = l_freed l,
                            skbs_allocated = l_allocated l,
                            wire = Some buf\<rparr>)
      in if l_has_data l then
           (case a1 of
              None \<Rightarrow> Inl NULL_DEREF
            | Some a \<Rightarrow>
                done (Some (if established a \<and> autoclose_timeout a \<noteq> 0
                            then a\<lparr>autoclose_expires :=
                                     Some (xmit_jiffies env + autoclose_timeout a)\<rparr>
                            else a)))
         else done a1)"

text \<open>
  The route refresh before the header is built: when the cached route is not valid,
  \<open>sctp_transport_route\<close> sets \<open>tp->dst\<close> and \<open>tp->pathmtu\<close>, and with PMTU discovery
  enabled \<open>sctp_assoc_sync_pmtu\<close> sets \<open>asoc->pathmtu\<close>.
\<close>

definition xmit_route :: "xmit_env \<Rightarrow> sctp_transport \<Rightarrow> sctp_transport" where
  "xmit_route env tp =
     (if dst tp \<and> dst_valid env then tp
      else
        tp\<lparr>dst := route_dst env,
           pathmtu := route_pathmtu env,
           asoc := map_option
                     (\<lambda>a. if pmtud_enable a then a\<lparr>asoc_pathmtu := sync_pathmtu env\<rparr> else a)
                     (asoc tp)\<rparr>)"

definition xmit_nodst :: "sctp_packet \<Rightarrow> sctp_packet" where
  "xmit_nodst packet = map_asoc (\<lambda>a. a\<lparr>out_no_routes := out_no_routes a + 1\<rparr>) packet"

text \<open>
  \<open>sctp_packet_transmit\<close>. \<open>None\<close>: the loop does not end; \<open>Inl\<close>: a fault;
  \<open>Inr\<close>: the function returns.
\<close>

definition sctp_packet_transmit ::
  "xmit_env \<Rightarrow> sock \<Rightarrow> sctp_packet \<Rightarrow> (fault + emit_result) option" where
  "sctp_packet_transmit env sk packet =
     (if chunk_list packet = [] then
        Some (Inr \<lparr>err = 0, pkt = packet, freed = [], skbs_allocated = 0, wire = None\<rparr>)
      else
        let gso = (packet_size packet > ucast (pathmtu (transport packet)) \<and>
                   \<not> ipfragok packet)
        in if gso \<and> \<not> sk_can_gso sk then Some (Inr (xmit_err packet [] 0))
           else if \<not> head_alloc_ok env then Some (Inr (xmit_err packet [] 0))
           else
             let packet1 = packet\<lparr>transport := xmit_route env (transport packet)\<rparr>
             in if \<not> dst (transport packet1)
                  then Some (Inr (xmit_err (xmit_nodst packet1) [] 1))
                else
                  (case xmit_loop env gso
                          \<lparr>l_packet = packet1, l_auth_len = 0, l_auth_set = False,
                           l_has_data = False, l_pktcount = 0, l_segments = [],
                           l_freed = [], l_allocated = 1\<rparr> of
                     None \<Rightarrow> None
                   | Some LIST_CORRUPT \<Rightarrow> Some (Inl LIST_FAULT)
                   | Some (Nomem l) \<Rightarrow> Some (Inr (xmit_nomem l))
                   | Some (Done l) \<Rightarrow> Some (xmit_finish env gso l)))"

section \<open>sctp_packet_transmit_chunk\<close>




definition same_packet_frame :: "sctp_packet \<Rightarrow> sctp_packet \<Rightarrow> bool" where
  "same_packet_frame p q =
     (overhead q = overhead p \<and> packet_size q = packet_size p \<and> max_size q = max_size p \<and>
      source_port q = source_port p \<and> destination_port q = destination_port p \<and>
      vtag q = vtag p \<and> ipfragok q = ipfragok p \<and>
      pathmtu (transport q) = pathmtu (transport p) \<and>
      asoc (transport q) = asoc (transport p) \<and>
      transport_addr (transport q) = transport_addr (transport p))"


section \<open>The size invariant, as the code keeps it and as the spec states it\<close>

text \<open>
  \<open>chunks_len\<close> is the sum of what \<open>__sctp_packet_append_chunk\<close> adds to
  \<open>packet->size\<close> for the chunks of a list, \<open>padded_sum\<close> the sum of their padded
  lengths \<open>\<lceil>raw_len/4\<rceil>\<cdot>4\<close>; both are sums of \<open>size_t\<close>.
\<close>

definition chunks_len :: "sctp_chunk list \<Rightarrow> size_t" where
  "chunks_len cs = sum_list (map (\<lambda>c. ucast (chunk_len_of c)) cs)"

definition padded_sum :: "sctp_chunk list \<Rightarrow> size_t" where
  "padded_sum cs = sum_list (map (\<lambda>c. word_of_nat (SCTP_PAD4 (unat (chunk_hdr_length c)))) cs)"

definition size_is_padded_sum :: "sctp_packet \<Rightarrow> bool" where
  "size_is_padded_sum packet =
     (packet_size packet = overhead packet + padded_sum (chunk_list packet))"

section \<open>Bundling after DATA\<close>



section \<open>Sample values\<close>

definition ex_asoc :: sctp_association where
  "ex_asoc =
     \<lparr>asoc_pathmtu = 1500, peer_rwnd = 65536, peer_prsctp_capable = False,
      peer_sack_generation = False, peer_sack_needed = False, peer_last_sent_to = None,
      rwnd = 65536, a_rwnd = 65536,
      outqueue = \<lparr>out_qlen = 0, outstanding_bytes = 0\<rparr>,
      established = True, nodelay = True, net_header_len = 20,
      sack_timer_pending = False, autoclose_timeout = 0, autoclose_expires = None,
      pmtud_enable = False, stats_osacks = 0, stats_opackets = 0, out_no_routes = 0\<rparr>"

definition ex_transport :: sctp_transport where
  "ex_transport =
     \<lparr>transport_addr = 1, pathmtu = 1500, cwnd = 4380, burst_limited = 0,
      flight_size = 0, rto_pending = False, sack_generation = False, dst = True,
      asoc = Some ex_asoc\<rparr>"

definition ex_chunk :: "nat \<Rightarrow> sctp_cid_t \<Rightarrow> u16 \<Rightarrow> sctp_chunk" where
  "ex_chunk addr ty len =
     \<lparr>chunk_addr = addr, chunk_type = ty, chunk_hdr_length = len, skb_len = ucast len,
      data_size = ucast len - 16, chunk_auth = False, chunk_asoc = True,
      fast_retransmit = SCTP_CAN_FRTX,
      msg = \<lparr>can_delay = True, can_abandon = True\<rparr>,
      resent = False, sent_at = 0, sent_count = 0, rtt_in_progress = False,
      has_tsn = False, has_ssn = False, chunk_transport = None\<rparr>"

text \<open>
  A packet as \<open>sctp_packet_init\<close> leaves it, for IPv4 (overhead 20 + 12), with the
  \<open>max_size\<close> of a device without segmentation offload.
\<close>

definition ex_packet :: sctp_packet where
  "ex_packet =
     sctp_packet_init
       \<lparr>source_port = 0, destination_port = 0, vtag = 0, chunk_list = [], overhead = 0,
        packet_size = 0, max_size = 1500, transport = ex_transport,
        has_cookie_echo = False, has_sack = False, has_auth = False, has_data = False,
        ipfragok = False, auth = None\<rparr>
       ex_transport 5000 5001"

definition ex_env :: append_env where
  "ex_env = \<lparr>make_auth = None, make_sack = None, jiffies = 1000\<rparr>"

text \<open>
  An environment in which every allocation succeeds and the route is valid, a socket
  without and one with segmentation offload, and a packet on a device with offload
  (\<open>max_size\<close> 65536, \<open>cwnd\<close> 10000) to which three DATA chunks of 800 bytes are
  offered.
\<close>

definition ex_xenv :: xmit_env where
  "ex_xenv =
     \<lparr>head_alloc_ok = True, dst_valid = True, route_dst = True, route_pathmtu = 1500,
      sync_pathmtu = 1500, nskb_alloc_ok = (\<lambda>n. True), gro_receive_ok = (\<lambda>n. True),
      gso_segs_ok = (\<lambda>n. True), checksum_disable = False, dev_sctp_crc = False,
      dst_is_xfrm = False, xmit_jiffies = 2000\<rparr>"

definition ex_sk :: sock where
  "ex_sk = \<lparr>sk_can_gso = False, sk_err = 0\<rparr>"





section \<open>Properties\<close>

subsection \<open>Conversions between the integer types\<close>

lemma unat_ucast_32_64: "unat (ucast (x :: 32 word) :: 64 word) = unat x"
proof -
  have "unat x < 2 ^ 32" using unsigned_less [of x] by simp
  then have "unat x < 2 ^ 64" by simp
  then show ?thesis by (simp add: unsigned_ucast_eq take_bit_nat_eq_self)
qed

lemma unat_ucast_16_64: "unat (ucast (x :: 16 word) :: 64 word) = unat x"
proof -
  have "unat x < 2 ^ 16" using unsigned_less [of x] by simp
  then have "unat x < 2 ^ 64" by simp
  then show ?thesis by (simp add: unsigned_ucast_eq take_bit_nat_eq_self)
qed

lemma ucast_32_64_eq_0: "((ucast (x :: 32 word) :: 64 word) = 0) = (x = 0)"
  by (metis unat_ucast_32_64 unat_eq_zero)

lemma rwnd_sub:
  fixes rw :: u32 and d :: size_t
  shows "unat (if d < ucast rw then rw - ucast d else 0) = unat rw - unat d"
proof (cases "d < ucast rw")
  case True
  then have lt: "unat d < unat rw" by (simp add: word_less_nat_alt unat_ucast_32_64)
  have "unat rw < 2 ^ 32" using unsigned_less [of rw] by simp
  with lt have d32: "unat d < 2 ^ 32" by simp
  have "unat (ucast d :: u32) = unat d"
    using d32 by (simp add: unsigned_ucast_eq take_bit_nat_eq_self)
  moreover have "(ucast d :: u32) \<le> rw"
    using lt \<open>unat (ucast d :: u32) = unat d\<close> by (simp add: word_le_nat_alt)
  ultimately show ?thesis using True by (simp add: unat_sub)
next
  case False
  then have "unat rw \<le> unat d" by (simp add: word_less_nat_alt unat_ucast_32_64)
  with False show ?thesis by simp
qed

lemma unat_add_ucast_64_32:
  fixes x :: u32 and d :: size_t
  assumes "unat x + unat d < 2 ^ 32"
  shows "unat (x + ucast d) = unat x + unat d"
proof -
  from assms have "unat d < 2 ^ 32" by simp
  then have u: "unat (ucast d :: u32) = unat d"
    by (simp add: unsigned_ucast_eq take_bit_nat_eq_self)
  with assms have "unat x + unat (ucast d :: u32) < 2 ^ LENGTH(32)" by simp
  then have "unat (x + ucast d) = unat x + unat (ucast d :: u32)"
    by (simp only: unat_add_lem)
  with u show ?thesis by simp
qed

subsection \<open>What the append helpers change\<close>

lemma will_fit_cases:
  "sctp_packet_will_fit p c L = (r, p') \<Longrightarrow>
     (p' = p \<or> (r = SCTP_XMIT_OK \<and> p' = p\<lparr>ipfragok := True\<rparr>)) \<and>
     (r = SCTP_XMIT_OK \<or> r = SCTP_XMIT_PMTU_FULL)"
  by (auto simp add: sctp_packet_will_fit_def Let_def split: if_splits)

lemma append_data_frame:
  "sctp_packet_append_data p c = Inr (p', c') \<Longrightarrow>
     chunk_list p' = chunk_list p \<and> packet_size p' = packet_size p \<and>
     overhead p' = overhead p \<and> max_size p' = max_size p \<and>
     has_cookie_echo p' = has_cookie_echo p \<and> has_sack p' = has_sack p \<and>
     has_auth p' = has_auth p \<and> has_data p' = has_data p \<and> ipfragok p' = ipfragok p \<and>
     auth p' = auth p \<and> asoc (transport p') \<noteq> None \<and>
     transport_addr (transport p') = transport_addr (transport p) \<and>
     chunk_addr c' = chunk_addr c \<and> chunk_type c' = chunk_type c \<and>
     chunk_hdr_length c' = chunk_hdr_length c \<and> skb_len c' = skb_len c"
  by (auto simp add: sctp_packet_append_data_def Let_def sctp_chunk_assign_tsn_def
      sctp_chunk_assign_ssn_def split: option.splits if_splits)

lemma append_data_total:
  "asoc (transport p) \<noteq> None \<Longrightarrow> \<exists>p' c'. sctp_packet_append_data p c = Inr (p', c')"
  by (auto simp add: sctp_packet_append_data_def Let_def)

lemma map_asoc_fields [simp]:
  "chunk_list (map_asoc f p) = chunk_list p"
  "packet_size (map_asoc f p) = packet_size p"
  "overhead (map_asoc f p) = overhead p"
  "max_size (map_asoc f p) = max_size p"
  "has_cookie_echo (map_asoc f p) = has_cookie_echo p"
  "has_sack (map_asoc f p) = has_sack p"
  "has_auth (map_asoc f p) = has_auth p"
  "has_data (map_asoc f p) = has_data p"
  "ipfragok (map_asoc f p) = ipfragok p"
  "auth (map_asoc f p) = auth p"
  "asoc (transport (map_asoc f p)) = map_option f (asoc (transport p))"
  "transport_addr (transport (map_asoc f p)) = transport_addr (transport p)"
  by (simp_all add: map_asoc_def)

lemma account_frame:
  assumes "append_chunk_account env p c = Inr (p', c')"
  shows "chunk_list p' = chunk_list p \<and> packet_size p' = packet_size p \<and>
     overhead p' = overhead p \<and> max_size p' = max_size p \<and>
     ipfragok p' = ipfragok p \<and>
     (asoc (transport p') = None) = (asoc (transport p) = None) \<and>
     transport_addr (transport p') = transport_addr (transport p) \<and>
     chunk_addr c' = chunk_addr c \<and> chunk_type c' = chunk_type c \<and>
     chunk_hdr_length c' = chunk_hdr_length c \<and> skb_len c' = skb_len c"
proof (cases "chunk_type c")
  case SCTP_CID_DATA
  with assms obtain p1 c1 where d: "sctp_packet_append_data p c = Inr (p1, c1)"
    and p': "p' = p1\<lparr>has_sack := True, has_auth := True, has_data := True\<rparr>"
    and c': "c' = c1\<lparr>sent_at := jiffies env, sent_count := sent_count c1 + 1\<rparr>"
    by (auto simp add: append_chunk_account_def split: sum.splits)
  from d have "asoc (transport p) \<noteq> None"
    by (auto simp add: sctp_packet_append_data_def split: option.splits)
  with append_data_frame [OF d] show ?thesis by (auto simp add: p' c')
next
  case SCTP_CID_SACK
  with assms show ?thesis
    by (cases "chunk_asoc c") (auto simp add: append_chunk_account_def)
qed (use assms in \<open>auto simp add: append_chunk_account_def\<close>)


lemma account_total:
  "asoc (transport p) \<noteq> None \<or> chunk_type c \<noteq> SCTP_CID_DATA \<Longrightarrow>
     \<exists>p' c'. append_chunk_account env p c = Inr (p', c')"
  using append_data_total [of p c]
  by (cases "chunk_type c") (auto simp add: append_chunk_account_def)

lemma raw_append_cases:
  assumes "sctp_packet_append_chunk_raw env p c = Inr (r, p')"
  shows "overhead p' = overhead p \<and> max_size p' = max_size p \<and>
     transport_addr (transport p') = transport_addr (transport p) \<and>
     (asoc (transport p') = None) = (asoc (transport p) = None) \<and>
     (r \<noteq> SCTP_XMIT_OK \<longrightarrow> r = SCTP_XMIT_PMTU_FULL \<and> p' = p) \<and>
     (r = SCTP_XMIT_OK \<longrightarrow>
        (\<exists>c'. chunk_list p' = chunk_list p @ [c'] \<and> chunk_addr c' = chunk_addr c \<and>
              chunk_type c' = chunk_type c \<and> chunk_hdr_length c' = chunk_hdr_length c \<and>
              skb_len c' = skb_len c) \<and>
        packet_size p' = packet_size p + ucast (chunk_len_of c))"
proof -
  obtain r1 p1 where wf: "sctp_packet_will_fit p c (chunk_len_of c) = (r1, p1)"
    by (cases "sctp_packet_will_fit p c (chunk_len_of c)")
  note w = will_fit_cases [OF wf]
  show ?thesis
  proof (cases "r1 = SCTP_XMIT_OK")
    case False
    with assms wf w show ?thesis
      by (auto simp add: sctp_packet_append_chunk_raw_def Let_def)
  next
    case True
    with assms wf obtain p2 c2 where acc: "append_chunk_account env p1 c = Inr (p2, c2)"
      and r: "r = SCTP_XMIT_OK"
      and p': "p' = p2\<lparr>chunk_list := chunk_list p2 @
                    [c2\<lparr>chunk_transport := Some (transport_addr (transport p2))\<rparr>],
                  packet_size := packet_size p2 + ucast (chunk_len_of c)\<rparr>"
      by (auto simp add: sctp_packet_append_chunk_raw_def Let_def split: sum.splits)
    from w have p1: "p1 = p \<or> p1 = p\<lparr>ipfragok := True\<rparr>" by auto
    from account_frame [OF acc] p1 show ?thesis
      unfolding p' r by auto
  qed
qed


lemma raw_append_total:
  assumes "asoc (transport p) \<noteq> None \<or> chunk_type c \<noteq> SCTP_CID_DATA"
  shows "\<exists>r p'. sctp_packet_append_chunk_raw env p c = Inr (r, p')"
proof -
  obtain r1 p1 where wf: "sctp_packet_will_fit p c (chunk_len_of c) = (r1, p1)"
    by (cases "sctp_packet_will_fit p c (chunk_len_of c)")
  from will_fit_cases [OF wf] have "asoc (transport p1) = asoc (transport p)" by auto
  with assms have "asoc (transport p1) \<noteq> None \<or> chunk_type c \<noteq> SCTP_CID_DATA" by simp
  from account_total [OF this, of env] obtain p2 c2
    where "append_chunk_account env p1 c = Inr (p2, c2)" by blast
  with wf show ?thesis
    by (simp add: sctp_packet_append_chunk_raw_def Let_def)
qed

subsection \<open>The bundlers and the public append\<close>



lemma bundle_auth_cases:
  assumes "sctp_packet_bundle_auth env p c = Inr (r, p')"
  shows "(r = SCTP_XMIT_OK \<and> p' = p) \<or>
     (\<not> has_auth p \<and> asoc (transport p) \<noteq> None \<and>
      (\<exists>au. make_auth env = Some au \<and> sctp_packet_append_chunk_raw env p au = Inr (r, p')))"
  using assms
  by (auto simp add: sctp_packet_bundle_auth_def split: option.splits if_splits)

lemma bundle_auth_total:
  "\<exists>r p'. sctp_packet_bundle_auth env p c = Inr (r, p')"
proof (cases "asoc (transport p)")
  case None
  then show ?thesis by (simp add: sctp_packet_bundle_auth_def)
next
  case (Some a)
  then have "asoc (transport p) \<noteq> None" by simp
  then have "\<exists>r p'. sctp_packet_append_chunk_raw env p au = Inr (r, p')" for au
    by (rule raw_append_total [OF disjI1])
  with Some show ?thesis
    by (auto simp add: sctp_packet_bundle_auth_def split: option.splits)
qed

lemma bundle_sack_cases:
  assumes "sctp_packet_bundle_sack env p c = Inr (r, p')"
  shows "(r = SCTP_XMIT_OK \<and> p' = p) \<or>
     (sctp_chunk_is_data c \<and> \<not> has_sack p \<and> \<not> has_cookie_echo p \<and>
      asoc (transport p) \<noteq> None \<and>
      ((r = SCTP_XMIT_OK \<and> p' = map_asoc (\<lambda>a. a\<lparr>a_rwnd := rwnd a\<rparr>) p) \<or>
       (\<exists>sack p2. make_sack env = Some sack \<and>
          sctp_packet_append_chunk_raw env (map_asoc (\<lambda>a. a\<lparr>a_rwnd := rwnd a\<rparr>) p) sack =
            Inr (r, p2) \<and>
          (p' = p2 \<or>
           (r = SCTP_XMIT_OK \<and>
            p' = map_asoc (\<lambda>a. a\<lparr>peer_sack_needed := False, sack_timer_pending := False\<rparr>) p2)))))"
  using assms
  by (auto simp add: sctp_packet_bundle_sack_def Let_def
      split: option.splits if_splits sum.splits)

lemma bundle_sack_total:
  assumes "asoc (transport p) \<noteq> None"
  shows "\<exists>r p'. sctp_packet_bundle_sack env p c = Inr (r, p')"
proof -
  from assms obtain a where a: "asoc (transport p) = Some a" by auto
  let ?p1 = "map_asoc (\<lambda>a. a\<lparr>a_rwnd := rwnd a\<rparr>) p"
  show ?thesis
  proof (cases "make_sack env")
    case None
    with a show ?thesis by (simp add: sctp_packet_bundle_sack_def Let_def)
  next
    case (Some s)
    have "asoc (transport ?p1) \<noteq> None" using assms by simp
    from raw_append_total [OF disjI1 [OF this], of env s] obtain r2 p2
      where "sctp_packet_append_chunk_raw env ?p1 s = Inr (r2, p2)" by blast
    with a Some show ?thesis by (simp add: sctp_packet_bundle_sack_def Let_def)
  qed
qed


lemma append_chunk_steps:
  assumes "sctp_packet_append_chunk env p c = Inr (r, p')"
  shows "(r \<noteq> SCTP_XMIT_OK \<and> p' = p \<and> sctp_chunk_is_data c) \<or>
     (\<exists>r1 p1 r2 p2.
        sctp_packet_bundle_auth env p c = Inr (r1, p1) \<and>
        ((r1 \<noteq> SCTP_XMIT_OK \<and> r = r1 \<and> p' = p1) \<or>
         (r1 = SCTP_XMIT_OK \<and> sctp_packet_bundle_sack env p1 c = Inr (r2, p2) \<and>
          ((r2 \<noteq> SCTP_XMIT_OK \<and> r = r2 \<and> p' = p2) \<or>
           (r2 = SCTP_XMIT_OK \<and> sctp_packet_append_chunk_raw env p2 c = Inr (r, p'))))))"
  using assms
  by (auto simp add: sctp_packet_append_chunk_def split: sum.splits if_splits)

lemma bundle_auth_preserves:
  assumes raw: "\<forall>env p c r p'. sctp_packet_append_chunk_raw env p c = Inr (r, p') \<longrightarrow> P p \<longrightarrow> P p'"
    and "sctp_packet_bundle_auth env p c = Inr (r, p')" and "P p"
  shows "P p'"
  using bundle_auth_cases [OF assms(2)] assms(3) raw by blast

lemma bundle_sack_preserves:
  assumes raw: "\<forall>env p c r p'. sctp_packet_append_chunk_raw env p c = Inr (r, p') \<longrightarrow> P p \<longrightarrow> P p'"
    and ma: "\<forall>f p. P p \<longrightarrow> P (map_asoc f p)"
    and "sctp_packet_bundle_sack env p c = Inr (r, p')" and "P p"
  shows "P p'"
  using bundle_sack_cases [OF assms(3)] assms(4) raw ma by blast

lemma append_chunk_preserves:
  assumes raw: "\<forall>env p c r p'. sctp_packet_append_chunk_raw env p c = Inr (r, p') \<longrightarrow> P p \<longrightarrow> P p'"
    and ma: "\<forall>f p. P p \<longrightarrow> P (map_asoc f p)"
    and step: "sctp_packet_append_chunk env p c = Inr (r, p')" and "P p"
  shows "P p'"
proof -
  from append_chunk_steps [OF step] consider "p' = p"
    | r1 p1 where "sctp_packet_bundle_auth env p c = Inr (r1, p1)" "p' = p1"
    | r1 p1 r2 p2 where "sctp_packet_bundle_auth env p c = Inr (r1, p1)"
        "sctp_packet_bundle_sack env p1 c = Inr (r2, p2)" "p' = p2"
    | r1 p1 r2 p2 where "sctp_packet_bundle_auth env p c = Inr (r1, p1)"
        "sctp_packet_bundle_sack env p1 c = Inr (r2, p2)"
        "sctp_packet_append_chunk_raw env p2 c = Inr (r, p')"
    by blast
  then show ?thesis
  proof cases
    case 1
    with \<open>P p\<close> show ?thesis by simp
  next
    case 2
    from bundle_auth_preserves [OF raw 2(1) \<open>P p\<close>] 2(2) show ?thesis by simp
  next
    case 3
    from bundle_auth_preserves [OF raw 3(1) \<open>P p\<close>] have "P p1" .
    from bundle_sack_preserves [OF raw ma 3(2) this] 3(3) show ?thesis by simp
  next
    case 4
    from bundle_auth_preserves [OF raw 4(1) \<open>P p\<close>] have "P p1" .
    from bundle_sack_preserves [OF raw ma 4(2) this] have "P p2" .
    with raw 4(3) show ?thesis by blast
  qed
qed

lemma append_chunks_preserves:
  assumes raw: "\<forall>env p c r p'. sctp_packet_append_chunk_raw env p c = Inr (r, p') \<longrightarrow> P p \<longrightarrow> P p'"
    and ma: "\<forall>f p. P p \<longrightarrow> P (map_asoc f p)"
  shows "append_chunks p ops = Inr p' \<Longrightarrow> P p \<Longrightarrow> P p'"
proof (induction ops arbitrary: p)
  case Nil
  then show ?case by simp
next
  case (Cons x ops)
  obtain env c where x: "x = (env, c)" by (cases x)
  from Cons.prems(1) obtain r p1 where
    s: "sctp_packet_append_chunk env p c = Inr (r, p1)" and t: "append_chunks p1 ops = Inr p'"
    by (auto simp add: x split: sum.splits)
  from append_chunk_preserves [OF raw ma s Cons.prems(2)] have "P p1" .
  from Cons.IH [OF t this] show ?case .
qed

subsection \<open>The running size\<close>

lemma chunks_len_append: "chunks_len (cs @ [c]) = chunks_len cs + ucast (chunk_len_of c)"
  by (simp add: chunks_len_def)

lemma size_inv_raw:
  "\<forall>env p c r p'. sctp_packet_append_chunk_raw env p c = Inr (r, p') \<longrightarrow>
     packet_size p = overhead p + chunks_len (chunk_list p) \<longrightarrow>
     packet_size p' = overhead p' + chunks_len (chunk_list p')"
proof (intro allI impI)
  fix env p c r p'
  assume a: "sctp_packet_append_chunk_raw env p c = Inr (r, p')"
    and i: "packet_size p = overhead p + chunks_len (chunk_list p)"
  note k = raw_append_cases [OF a]
  show "packet_size p' = overhead p' + chunks_len (chunk_list p')"
  proof (cases "r = SCTP_XMIT_OK")
    case False
    with k i show ?thesis by simp
  next
    case True
    with k obtain c' where l: "chunk_list p' = chunk_list p @ [c']"
      and h: "chunk_hdr_length c' = chunk_hdr_length c"
      and s: "packet_size p' = packet_size p + ucast (chunk_len_of c)"
      and o: "overhead p' = overhead p" by auto
    from h have "chunk_len_of c' = chunk_len_of c" by (simp add: chunk_len_of_def)
    with l s o i show ?thesis by (simp add: chunks_len_append)
  qed
qed

lemma size_inv_append_chunks:
  assumes "append_chunks p ops = Inr p'"
    and "packet_size p = overhead p + chunks_len (chunk_list p)"
  shows "packet_size p' = overhead p' + chunks_len (chunk_list p')"
  using append_chunks_preserves
    [where P = "\<lambda>p. packet_size p = overhead p + chunks_len (chunk_list p)", OF size_inv_raw _ assms]
  by simp

lemmas sctp_eval =
  append_chunks.simps sctp_packet_append_chunk_def sctp_chunk_is_data_def
  sctp_packet_bundle_auth_def sctp_packet_bundle_sack_def sctp_packet_append_chunk_raw_def
  sctp_packet_will_fit_def will_fit_pmtu_def will_fit_maxsize_def chunk_len_of_def
  SCTP_PAD4_def append_chunk_account_def sctp_packet_empty_def
  sctp_packet_can_append_data_def sctp_packet_append_data_def
  sctp_chunk_assign_tsn_def sctp_chunk_assign_ssn_def map_asoc_def
  sctp_packet_init_def sctp_packet_reset_def sizeof_sctphdr_def sizeof_ipv6hdr_def
  sizeof_sctp_data_chunk_t_def
  ex_packet_def ex_transport_def ex_asoc_def ex_chunk_def ex_env_def Let_def


lemma pad4_le: "SCTP_PAD4 n \<le> n + 3"
  by (simp add: SCTP_PAD4_def)

lemma ucast_of_nat_16_64:
  assumes "n < 2 ^ 16"
  shows "(ucast (word_of_nat n :: 16 word) :: 64 word) = word_of_nat n"
proof -
  from assms have a: "unat (word_of_nat n :: 16 word) = n" by (simp add: unat_of_nat)
  from assms have "n < 2 ^ 64" by (rule less_le_trans) simp
  then have b: "unat (word_of_nat n :: 64 word) = n" by (simp add: unat_of_nat)
  show ?thesis by (rule word_unat_eq_iff [THEN iffD2]) (simp add: unat_ucast_16_64 a b)
qed

lemma chunks_len_padded_sum:
  assumes "\<forall>c\<in>set cs. unat (chunk_hdr_length c) \<le> 65532"
  shows "chunks_len cs = padded_sum cs"
proof -
  have "(ucast (chunk_len_of c) :: size_t) = word_of_nat (SCTP_PAD4 (unat (chunk_hdr_length c)))"
    if "c \<in> set cs" for c
  proof -
    from that assms have "unat (chunk_hdr_length c) \<le> 65532" by blast
    with pad4_le [of "unat (chunk_hdr_length c)"]
    have "SCTP_PAD4 (unat (chunk_hdr_length c)) < 2 ^ 16" by simp
    then show ?thesis unfolding chunk_len_of_def by (rule ucast_of_nat_16_64)
  qed
  then show ?thesis unfolding chunks_len_def padded_sum_def
    by (simp cong: map_cong)
qed




lemma asoc_inv_raw:
  "\<forall>env p c r p'. sctp_packet_append_chunk_raw env p c = Inr (r, p') \<longrightarrow>
     asoc (transport p) \<noteq> None \<longrightarrow> asoc (transport p') \<noteq> None"
proof (intro allI impI)
  fix env p c r p'
  assume "sctp_packet_append_chunk_raw env p c = Inr (r, p')" and "asoc (transport p) \<noteq> None"
  with raw_append_cases [of env p c r p'] show "asoc (transport p') \<noteq> None" by simp
qed

lemma asoc_inv_map_asoc:
  "\<forall>f p. asoc (transport p) \<noteq> None \<longrightarrow> asoc (transport (map_asoc f p)) \<noteq> None"
  by simp

lemma append_chunk_total:
  assumes "asoc (transport p) \<noteq> None"
  shows "\<exists>r p'. sctp_packet_append_chunk env p c = Inr (r, p') \<and> asoc (transport p') \<noteq> None"
proof -
  from assms obtain a where a: "asoc (transport p) = Some a" by auto
  then obtain r0 where r0: "sctp_packet_can_append_data p c = Inr r0"
    by (simp add: sctp_packet_can_append_data_def Let_def)
  obtain r1 p1 where b1: "sctp_packet_bundle_auth env p c = Inr (r1, p1)"
    using bundle_auth_total by blast
  have n1: "asoc (transport p1) \<noteq> None"
    by (rule bundle_auth_preserves
        [where P = "\<lambda>p. asoc (transport p) \<noteq> None", OF asoc_inv_raw b1 assms])
  obtain r2 p2 where b2: "sctp_packet_bundle_sack env p1 c = Inr (r2, p2)"
    using bundle_sack_total [OF n1] by blast
  have n2: "asoc (transport p2) \<noteq> None"
    by (rule bundle_sack_preserves
        [where P = "\<lambda>p. asoc (transport p) \<noteq> None", OF asoc_inv_raw asoc_inv_map_asoc b2 n1])
  obtain r3 p3 where b3: "sctp_packet_append_chunk_raw env p2 c = Inr (r3, p3)"
    using raw_append_total [OF disjI1 [OF n2]] by blast
  have n3: "asoc (transport p3) \<noteq> None" using raw_append_cases [OF b3] n2 by simp
  show ?thesis
    using r0 b1 b2 b3 assms n1 n2 n3
    by (simp add: sctp_packet_append_chunk_def)
qed

subsection \<open>The emitter\<close>

lemma reset_fields [simp]:
  "packet_size (sctp_packet_reset p) = overhead p"
  "overhead (sctp_packet_reset p) = overhead p"
  "chunk_list (sctp_packet_reset p) = chunk_list p"
  "transport (sctp_packet_reset p) = transport p"
  "max_size (sctp_packet_reset p) = max_size p"
  "has_cookie_echo (sctp_packet_reset p) = False"
  "has_sack (sctp_packet_reset p) = False"
  "has_auth (sctp_packet_reset p) = False"
  "has_data (sctp_packet_reset p) = False"
  "ipfragok (sctp_packet_reset p) = False"
  "auth (sctp_packet_reset p) = None"
  by (simp_all add: sctp_packet_reset_def)

lemma xmit_err_fields [simp]:
  "err (xmit_err p f n) = 0"
  "wire (xmit_err p f n) = None"
  "pkt (xmit_err p f n) = sctp_packet_reset (p\<lparr>chunk_list := []\<rparr>)"
  "skbs_allocated (xmit_err p f n) = n"
  by (simp_all add: xmit_err_def)

lemma xmit_nomem_fields [simp]:
  "err (xmit_nomem l) = 0"
  "wire (xmit_nomem l) = None"
  "pkt (xmit_nomem l) = sctp_packet_reset ((l_packet l)\<lparr>chunk_list := []\<rparr>)"
  by (simp_all add: xmit_nomem_def Let_def)









lemma same_packet_frame_refl [simp]: "same_packet_frame p p"
  by (simp add: same_packet_frame_def)









































subsection \<open>The admission predicates\<close>

text \<open>
  C5. For a DATA chunk offered on a transport with an association,
  \<open>sctp_packet_can_append_data\<close> decides by four ordered rules: RWND_FULL when the
  chunk's data size exceeds the peer's rwnd while \<open>outstanding_bytes\<close> is positive;
  else RWND_FULL when the chunk is not marked \<open>SCTP_NEED_FRTX\<close> and \<open>flight_size\<close>
  is at least \<open>cwnd\<close>; else OK when Nagle is disabled, or the packet is not empty, or
  nothing is in flight, or the association is not established; else OK when
  \<open>skb_len + out_qlen\<close> exceeds \<open>pathmtu - overhead - sizeof(sctp_data_chunk_t) - 4\<close>
  or the message cannot be delayed; else DELAY. The sum is the \<open>unsigned int\<close> sum and
  the room the \<open>size_t\<close> difference that the C expressions compute.
\<close>

theorem can_append_data_rules:
  assumes "asoc (transport packet) = Some a"
  shows "sctp_packet_can_append_data packet chunk =
     Inr (if unat (peer_rwnd a) < unat (data_size chunk) \<and> 0 < unat (outstanding_bytes (outqueue a))
            then SCTP_XMIT_RWND_FULL
          else if fast_retransmit chunk \<noteq> SCTP_NEED_FRTX \<and>
                  unat (cwnd (transport packet)) \<le> unat (flight_size (transport packet))
            then SCTP_XMIT_RWND_FULL
          else if nodelay a \<or> \<not> sctp_packet_empty packet \<or>
                  unat (outstanding_bytes (outqueue a)) = 0 \<or> \<not> established a
            then SCTP_XMIT_OK
          else if unat (ucast (pathmtu (transport packet)) - overhead packet
                         - sizeof_sctp_data_chunk_t - 4 :: size_t)
                    < unat (skb_len chunk + out_qlen (outqueue a)) \<or>
                  \<not> can_delay (msg chunk)
            then SCTP_XMIT_OK
          else SCTP_XMIT_DELAY)"
proof -
  let ?q = "outqueue a" and ?tp = "transport packet"
  have e1: "(data_size chunk > ucast (peer_rwnd a)) = (unat (peer_rwnd a) < unat (data_size chunk))"
    by (simp add: word_less_nat_alt unat_ucast_32_64)
  have e2: "((ucast (outstanding_bytes ?q) :: size_t) > 0) = (0 < unat (outstanding_bytes ?q))"
    by (simp add: word_less_nat_alt unat_ucast_32_64)
  have e3: "((ucast (flight_size ?tp) :: size_t) \<ge> ucast (cwnd ?tp)) =
            (unat (cwnd ?tp) \<le> unat (flight_size ?tp))"
    by (simp add: word_le_nat_alt unat_ucast_32_64)
  have e4: "((ucast (outstanding_bytes ?q) :: size_t) = 0) = (unat (outstanding_bytes ?q) = 0)"
    by (simp add: ucast_32_64_eq_0 unat_eq_zero)
  have e5: "((ucast (skb_len chunk + out_qlen ?q) :: size_t) >
               ucast (pathmtu ?tp) - overhead packet - sizeof_sctp_data_chunk_t - 4) =
            (unat (ucast (pathmtu ?tp) - overhead packet - sizeof_sctp_data_chunk_t - 4 :: size_t)
               < unat (skb_len chunk + out_qlen ?q))"
    by (simp add: word_less_nat_alt unat_ucast_32_64)
  show ?thesis
    unfolding sctp_packet_can_append_data_def Let_def assms option.case e1 e2 e3 e4 e5
    by auto
qed

text \<open>
  The Nagle scenario: Nagle enabled, association established, 200 bytes in flight, an
  empty packet, a chunk of 50 bytes with 50 more queued, path MTU 1500, a message that
  can be delayed: the verdict is DELAY.
\<close>

theorem can_append_data_rules_witness:
  "asoc (transport (ex_packet\<lparr>transport := ex_transport\<lparr>asoc :=
       Some (ex_asoc\<lparr>nodelay := False,
                     outqueue := \<lparr>out_qlen = 50, outstanding_bytes = 200\<rparr>\<rparr>)\<rparr>\<rparr>)) =
     Some (ex_asoc\<lparr>nodelay := False, outqueue := \<lparr>out_qlen = 50, outstanding_bytes = 200\<rparr>\<rparr>) \<and>
   sctp_packet_can_append_data
     (ex_packet\<lparr>transport := ex_transport\<lparr>asoc :=
       Some (ex_asoc\<lparr>nodelay := False,
                     outqueue := \<lparr>out_qlen = 50, outstanding_bytes = 200\<rparr>\<rparr>)\<rparr>\<rparr>)
     (ex_chunk 11 SCTP_CID_DATA 50) = Inr SCTP_XMIT_DELAY"
  using can_append_data_rules
    [of "ex_packet\<lparr>transport := ex_transport\<lparr>asoc :=
           Some (ex_asoc\<lparr>nodelay := False,
                         outqueue := \<lparr>out_qlen = 50, outstanding_bytes = 200\<rparr>\<rparr>)\<rparr>\<rparr>"
        "ex_asoc\<lparr>nodelay := False, outqueue := \<lparr>out_qlen = 50, outstanding_bytes = 200\<rparr>\<rparr>"
        "ex_chunk 11 SCTP_CID_DATA 50"]
  by (simp add: ex_packet_def ex_transport_def ex_asoc_def ex_chunk_def sctp_packet_init_def
      sctp_packet_reset_def sctp_packet_empty_def sizeof_sctphdr_def
      sizeof_sctp_data_chunk_t_def Let_def)

text \<open>
  C7. When \<open>packet->size + chunk_len\<close> exceeds the path MTU and the packet is empty, or
  holds no DATA while the chunk requires authentication, \<open>sctp_packet_will_fit\<close> returns
  OK and sets \<open>ipfragok\<close>, whatever \<open>max_size\<close>, \<open>cwnd\<close>, \<open>burst_limited\<close>, the
  recorded AUTH chunk and the type of the chunk are: the rule comes before every
  PMTU_FULL condition. \<open>__sctp_packet_append_chunk\<close> then admits the chunk (a DATA
  chunk needs the association that its accounting reads).
\<close>

theorem will_fit_fragment_rule_first:
  assumes "will_fit_pmtu packet < packet_size packet + ucast L"
    and "sctp_packet_empty packet \<or> (\<not> has_data packet \<and> chunk_auth chunk)"
  shows "sctp_packet_will_fit packet chunk L = (SCTP_XMIT_OK, packet\<lparr>ipfragok := True\<rparr>) \<and>
     (L = chunk_len_of chunk \<and>
      (asoc (transport packet) \<noteq> None \<or> chunk_type chunk \<noteq> SCTP_CID_DATA) \<longrightarrow>
      (\<exists>packet' chunk'.
         sctp_packet_append_chunk_raw env packet chunk = Inr (SCTP_XMIT_OK, packet') \<and>
         ipfragok packet' \<and>
         chunk_list packet' = chunk_list packet @ [chunk'] \<and>
         chunk_addr chunk' = chunk_addr chunk))"
proof -
  have wf: "sctp_packet_will_fit packet chunk L = (SCTP_XMIT_OK, packet\<lparr>ipfragok := True\<rparr>)"
    using assms by (simp add: sctp_packet_will_fit_def Let_def)
  have "\<exists>packet' chunk'.
         sctp_packet_append_chunk_raw env packet chunk = Inr (SCTP_XMIT_OK, packet') \<and>
         ipfragok packet' \<and>
         chunk_list packet' = chunk_list packet @ [chunk'] \<and>
         chunk_addr chunk' = chunk_addr chunk"
    if L: "L = chunk_len_of chunk"
      and a: "asoc (transport packet) \<noteq> None \<or> chunk_type chunk \<noteq> SCTP_CID_DATA"
  proof -
    from a have "asoc (transport (packet\<lparr>ipfragok := True\<rparr>)) \<noteq> None \<or>
        chunk_type chunk \<noteq> SCTP_CID_DATA" by simp
    from account_total [OF this, of env] obtain p2 c2
      where acc: "append_chunk_account env (packet\<lparr>ipfragok := True\<rparr>) chunk = Inr (p2, c2)"
      by blast
    from account_frame [OF acc] acc wf L show ?thesis
      by (simp add: sctp_packet_append_chunk_raw_def Let_def)
  qed
  with wf show ?thesis by blast
qed

text \<open>
  Path MTU 1500, an empty packet, one control chunk of padded length 1600: verdict OK
  and \<open>ipfragok\<close> set.
\<close>

theorem will_fit_fragment_rule_first_witness:
  "will_fit_pmtu ex_packet <
     packet_size ex_packet + ucast (chunk_len_of (ex_chunk 7 SCTP_CID_OTHER 1600)) \<and>
   sctp_packet_empty ex_packet \<and>
   sctp_packet_will_fit ex_packet (ex_chunk 7 SCTP_CID_OTHER 1600)
       (chunk_len_of (ex_chunk 7 SCTP_CID_OTHER 1600)) =
     (SCTP_XMIT_OK, ex_packet\<lparr>ipfragok := True\<rparr>) \<and>
   (\<exists>packet' chunk'.
      sctp_packet_append_chunk_raw ex_env ex_packet (ex_chunk 7 SCTP_CID_OTHER 1600) =
        Inr (SCTP_XMIT_OK, packet') \<and>
      ipfragok packet' \<and> chunk_list packet' = chunk_list ex_packet @ [chunk'] \<and>
      chunk_addr chunk' = chunk_addr (ex_chunk 7 SCTP_CID_OTHER 1600))"
proof -
  have h1: "will_fit_pmtu ex_packet <
      packet_size ex_packet + ucast (chunk_len_of (ex_chunk 7 SCTP_CID_OTHER 1600))"
    by (simp add: will_fit_pmtu_def ex_packet_def ex_transport_def ex_asoc_def ex_chunk_def
        sctp_packet_init_def sctp_packet_reset_def sizeof_sctphdr_def chunk_len_of_def
        SCTP_PAD4_def Let_def)
  have h2: "sctp_packet_empty ex_packet"
    by (simp add: sctp_packet_empty_def ex_packet_def sctp_packet_init_def
        sctp_packet_reset_def Let_def)
  have h3: "chunk_type (ex_chunk 7 SCTP_CID_OTHER 1600) \<noteq> SCTP_CID_DATA"
    by (simp add: ex_chunk_def)
  from will_fit_fragment_rule_first
    [where packet = ex_packet and chunk = "ex_chunk 7 SCTP_CID_OTHER 1600"
       and L = "chunk_len_of (ex_chunk 7 SCTP_CID_OTHER 1600)" and env = ex_env]
    h1 h2 h3
  show ?thesis by blast
qed

text \<open>
  C6. On a transport with an association, \<open>sctp_packet_append_data\<close> for a chunk of
  data size \<open>d\<close> adds \<open>d\<close> to \<open>transport->flight_size\<close> and to
  \<open>outqueue.outstanding_bytes\<close> (sums of \<open>__u32\<close>; without overflow the values grow by
  exactly \<open>d\<close>), sets \<open>peer.rwnd\<close> to \<open>max(0, rwnd - d)\<close>, so that rwnd shrinks by
  \<open>min(d, rwnd)\<close>, clears \<open>can_abandon\<close> of the message when the peer is not
  PR-SCTP capable (and leaves it otherwise), and assigns TSN and SSN.
\<close>

theorem append_data_accounting:
  assumes "asoc (transport packet) = Some a"
  shows "\<exists>packet' chunk' a'.
     sctp_packet_append_data packet chunk = Inr (packet', chunk') \<and>
     asoc (transport packet') = Some a' \<and>
     flight_size (transport packet') = flight_size (transport packet) + ucast (data_size chunk) \<and>
     outstanding_bytes (outqueue a') = outstanding_bytes (outqueue a) + ucast (data_size chunk) \<and>
     (unat (flight_size (transport packet)) + unat (data_size chunk) < 2 ^ 32 \<longrightarrow>
        unat (flight_size (transport packet')) =
          unat (flight_size (transport packet)) + unat (data_size chunk)) \<and>
     (unat (outstanding_bytes (outqueue a)) + unat (data_size chunk) < 2 ^ 32 \<longrightarrow>
        unat (outstanding_bytes (outqueue a')) =
          unat (outstanding_bytes (outqueue a)) + unat (data_size chunk)) \<and>
     int (unat (peer_rwnd a')) = max 0 (int (unat (peer_rwnd a)) - int (unat (data_size chunk))) \<and>
     unat (peer_rwnd a) - unat (peer_rwnd a') = min (unat (data_size chunk)) (unat (peer_rwnd a)) \<and>
     (\<not> peer_prsctp_capable a \<longrightarrow> \<not> can_abandon (msg chunk')) \<and>
     (peer_prsctp_capable a \<longrightarrow> can_abandon (msg chunk') = can_abandon (msg chunk)) \<and>
     has_tsn chunk' \<and> has_ssn chunk'"
proof -
  let ?d = "data_size chunk" and ?rw = "peer_rwnd a"
  let ?rw' = "if ?d < ucast ?rw then ?rw - ucast ?d else 0"
  have n: "unat ?rw' = unat ?rw - unat ?d" by (rule rwnd_sub)
  have i: "int (unat ?rw') = max 0 (int (unat ?rw) - int (unat ?d))"
    unfolding n by linarith
  have m: "unat ?rw - unat ?rw' = min (unat ?d) (unat ?rw)"
    unfolding n by linarith
  have f: "unat (x + ucast ?d) = unat x + unat ?d"
    if "unat x + unat ?d < 2 ^ 32" for x :: u32
    using that by (rule unat_add_ucast_64_32)
  show ?thesis
    using assms i m f [of "flight_size (transport packet)"]
      f [of "outstanding_bytes (outqueue a)"]
    by (simp add: sctp_packet_append_data_def Let_def sctp_chunk_assign_tsn_def
        sctp_chunk_assign_ssn_def del: of_nat_unat)
qed

text \<open>A chunk of data size 100 on a transport with rwnd 65536 and nothing in flight.\<close>

theorem append_data_accounting_witness:
  "asoc (transport ex_packet) = Some ex_asoc \<and>
   (\<exists>packet' chunk' a'.
      sctp_packet_append_data ex_packet (ex_chunk 11 SCTP_CID_DATA 116) = Inr (packet', chunk') \<and>
      asoc (transport packet') = Some a' \<and>
      unat (flight_size (transport packet')) = 100 \<and>
      unat (outstanding_bytes (outqueue a')) = 100 \<and>
      unat (peer_rwnd a') = 65436 \<and>
      \<not> can_abandon (msg chunk') \<and> has_tsn chunk' \<and> has_ssn chunk')"
proof -
  have h: "asoc (transport ex_packet) = Some ex_asoc"
    by (simp add: ex_packet_def ex_transport_def sctp_packet_init_def sctp_packet_reset_def
        Let_def)
  have v: "data_size (ex_chunk 11 SCTP_CID_DATA 116) = 100"
    "flight_size (transport ex_packet) = 0"
    "outstanding_bytes (outqueue ex_asoc) = 0" "peer_rwnd ex_asoc = 65536"
    "\<not> peer_prsctp_capable ex_asoc"
    by (simp_all add: ex_packet_def ex_transport_def ex_asoc_def ex_chunk_def
        sctp_packet_init_def sctp_packet_reset_def Let_def)
  from append_data_accounting [OF h, of "ex_chunk 11 SCTP_CID_DATA 116"]
  obtain packet' chunk' a' where
    r: "sctp_packet_append_data ex_packet (ex_chunk 11 SCTP_CID_DATA 116) = Inr (packet', chunk')"
      "asoc (transport packet') = Some a'"
    and f: "flight_size (transport packet') = flight_size (transport ex_packet) +
        ucast (data_size (ex_chunk 11 SCTP_CID_DATA 116))"
    and o: "outstanding_bytes (outqueue a') = outstanding_bytes (outqueue ex_asoc) +
        ucast (data_size (ex_chunk 11 SCTP_CID_DATA 116))"
    and w: "int (unat (peer_rwnd a')) =
        max 0 (int (unat (peer_rwnd ex_asoc)) - int (unat (data_size (ex_chunk 11 SCTP_CID_DATA 116))))"
    and c: "\<not> peer_prsctp_capable ex_asoc \<longrightarrow> \<not> can_abandon (msg chunk')"
      "has_tsn chunk'" "has_ssn chunk'"
    by blast
  from f o have "unat (flight_size (transport packet')) = 100"
    "unat (outstanding_bytes (outqueue a')) = 100" by (simp_all add: v)
  moreover have "unat (peer_rwnd a') = 65436"
  proof -
    from w have "int (unat (peer_rwnd a')) = 65436" by (simp add: v del: of_nat_unat)
    then show ?thesis by linarith
  qed
  ultimately show ?thesis using h r c v(5) by blast
qed

subsection \<open>Invariants of a sequence of appends\<close>

text \<open>
  C1 (as amended). After any sequence of \<open>sctp_packet_append_chunk\<close> calls on a packet
  that \<open>sctp_packet_init\<close> set up, or that \<open>sctp_packet_reset\<close> reset while its chunk
  list was empty, \<open>packet->size\<close> equals \<open>overhead\<close> plus the sum of the padded
  lengths \<open>\<lceil>raw_len/4\<rceil>\<cdot>4\<close> of the chunks in \<open>chunk_list\<close> (a sum of \<open>size_t\<close>),
  provided every chunk in the list has a raw length of at most 65532: the padded length
  is kept in a \<open>__u16\<close>.
\<close>

theorem size_is_padded_sum_after_appends:
  assumes start: "start = sctp_packet_init packet0 tp sport dport \<or>
      (start = sctp_packet_reset q \<and> chunk_list q = [])"
    and run: "append_chunks start ops = Inr packet'"
    and len: "\<forall>c\<in>set (chunk_list packet'). unat (chunk_hdr_length c) \<le> 65532"
  shows "packet_size packet' = overhead packet' + padded_sum (chunk_list packet')"
proof -
  from start have "packet_size start = overhead start + chunks_len (chunk_list start)"
    by (auto simp add: sctp_packet_init_def sctp_packet_reset_def chunks_len_def Let_def)
  from size_inv_append_chunks [OF run this] chunks_len_padded_sum [OF len]
  show ?thesis by simp
qed

text \<open>A DATA chunk of raw length 117 (padded 120), then a SACK of 16: size 32 + 136.\<close>

theorem size_is_padded_sum_after_appends_witness:
  "\<exists>packet'. append_chunks ex_packet
        [(ex_env, ex_chunk 11 SCTP_CID_DATA 117), (ex_env, ex_chunk 12 SCTP_CID_SACK 16)] = Inr packet' \<and>
      (\<forall>c\<in>set (chunk_list packet'). unat (chunk_hdr_length c) \<le> 65532) \<and>
      packet_size packet' = overhead packet' + padded_sum (chunk_list packet') \<and>
      packet_size packet' = 168"
proof -
  let ?ops = "[(ex_env, ex_chunk 11 SCTP_CID_DATA 117), (ex_env, ex_chunk 12 SCTP_CID_SACK 16)]"
  have e: "\<not> isl (append_chunks ex_packet ?ops)"
    "map chunk_hdr_length (chunk_list (projr (append_chunks ex_packet ?ops))) = [117, 16]"
    "overhead (projr (append_chunks ex_packet ?ops)) = 32"
    by (simp_all add: sctp_eval)
  from e(1) obtain Q where q: "append_chunks ex_packet ?ops = Inr Q"
    by (cases "append_chunks ex_packet ?ops") auto
  from e(2) q have m: "map chunk_hdr_length (chunk_list Q) = [117, 16]" by simp
  have l: "\<forall>c\<in>set (chunk_list Q). unat (chunk_hdr_length c) \<le> 65532"
  proof
    fix c assume "c \<in> set (chunk_list Q)"
    then have "chunk_hdr_length c \<in> set (map chunk_hdr_length (chunk_list Q))" by simp
    then show "unat (chunk_hdr_length c) \<le> 65532" unfolding m by auto
  qed
  have s: "ex_packet = sctp_packet_init
       \<lparr>source_port = 0, destination_port = 0, vtag = 0, chunk_list = [], overhead = 0,
        packet_size = 0, max_size = 1500, transport = ex_transport,
        has_cookie_echo = False, has_sack = False, has_auth = False, has_data = False,
        ipfragok = False, auth = None\<rparr>
       ex_transport 5000 5001 \<or> (ex_packet = sctp_packet_reset ex_packet \<and> chunk_list ex_packet = [])"
    by (simp add: ex_packet_def)
  from size_is_padded_sum_after_appends [OF s q l]
  have t: "packet_size Q = overhead Q + padded_sum (chunk_list Q)" .
  have "padded_sum (chunk_list Q) = 136"
    using m by (auto simp add: padded_sum_def SCTP_PAD4_def)
  with t e(3) q have "packet_size Q = 168" by simp
  with q l t show ?thesis by blast
qed

text \<open>
  The claim as stated fails for a chunk whose raw length is 65535: its padded length is
  65536, the \<open>__u16 chunk_len\<close> is 0, the chunk is admitted and \<open>size\<close> stays at the
  overhead.
\<close>

theorem size_not_padded_sum_long_chunk:
  "\<not> isl (append_chunks ex_packet [(ex_env, ex_chunk 7 SCTP_CID_OTHER 65535)]) \<and>
   packet_size (projr (append_chunks ex_packet [(ex_env, ex_chunk 7 SCTP_CID_OTHER 65535)])) = 32 \<and>
   overhead (projr (append_chunks ex_packet [(ex_env, ex_chunk 7 SCTP_CID_OTHER 65535)])) = 32 \<and>
   padded_sum (chunk_list (projr (append_chunks ex_packet [(ex_env, ex_chunk 7 SCTP_CID_OTHER 65535)]))) = 65536 \<and>
   \<not> size_is_padded_sum (projr (append_chunks ex_packet [(ex_env, ex_chunk 7 SCTP_CID_OTHER 65535)]))"
  by (simp add: sctp_eval padded_sum_def size_is_padded_sum_def)




subsection \<open>The association of the transport\<close>

text \<open>
  C10. \<open>sctp_packet_can_append_data\<close> reads \<open>transport->asoc\<close> without a test, and
  so does \<open>sctp_packet_bundle_sack\<close> when it considers a SACK (a DATA chunk, no SACK
  and no COOKIE_ECHO in the packet): on a transport without association they fault,
  and so does \<open>sctp_packet_append_chunk\<close> for a DATA chunk.
  \<open>sctp_packet_bundle_auth\<close> and \<open>sctp_packet_will_fit\<close> accept a missing
  association (no AUTH is bundled; the path MTU is the transport's). With an
  association, no call of \<open>sctp_packet_append_chunk\<close> faults, and the association is
  still there afterwards.
\<close>

theorem append_data_needs_asoc:
  "(asoc (transport packet) = None \<and> sctp_chunk_is_data chunk \<longrightarrow>
      sctp_packet_can_append_data packet chunk = Inl NULL_DEREF \<and>
      sctp_packet_append_chunk env packet chunk = Inl NULL_DEREF) \<and>
   (asoc (transport packet) = None \<and> sctp_chunk_is_data chunk \<and>
      \<not> has_sack packet \<and> \<not> has_cookie_echo packet \<longrightarrow>
      sctp_packet_bundle_sack env packet chunk = Inl NULL_DEREF) \<and>
   (asoc (transport packet) = None \<longrightarrow>
      sctp_packet_bundle_auth env packet chunk = Inr (SCTP_XMIT_OK, packet) \<and>
      will_fit_pmtu packet = ucast (pathmtu (transport packet))) \<and>
   (asoc (transport packet) \<noteq> None \<longrightarrow>
      (\<exists>r. sctp_packet_can_append_data packet chunk = Inr r) \<and>
      (\<exists>r packet'. sctp_packet_bundle_sack env packet chunk = Inr (r, packet')) \<and>
      (\<exists>r packet'. sctp_packet_append_chunk env packet chunk = Inr (r, packet') \<and>
                   asoc (transport packet') \<noteq> None))"
proof -
  have "\<exists>r. sctp_packet_can_append_data packet chunk = Inr r"
    if "asoc (transport packet) \<noteq> None"
    using that by (auto simp add: sctp_packet_can_append_data_def Let_def)
  then show ?thesis
    using append_chunk_total [of packet env chunk] bundle_sack_total [of packet env chunk]
    by (auto simp add: sctp_packet_can_append_data_def sctp_packet_append_chunk_def
        sctp_packet_bundle_sack_def sctp_packet_bundle_auth_def will_fit_pmtu_def)
qed

theorem append_data_needs_asoc_witness:
  "sctp_packet_append_chunk ex_env (ex_packet\<lparr>transport := ex_transport\<lparr>asoc := None\<rparr>\<rparr>)
       (ex_chunk 11 SCTP_CID_DATA 116) = Inl NULL_DEREF \<and>
   sctp_packet_bundle_auth ex_env (ex_packet\<lparr>transport := ex_transport\<lparr>asoc := None\<rparr>\<rparr>)
       (ex_chunk 11 SCTP_CID_DATA 116) =
     Inr (SCTP_XMIT_OK, ex_packet\<lparr>transport := ex_transport\<lparr>asoc := None\<rparr>\<rparr>) \<and>
   (\<exists>r packet'. sctp_packet_append_chunk ex_env ex_packet (ex_chunk 11 SCTP_CID_DATA 116) =
        Inr (r, packet') \<and> asoc (transport packet') \<noteq> None)"
proof -
  have n: "asoc (transport (ex_packet\<lparr>transport := ex_transport\<lparr>asoc := None\<rparr>\<rparr>)) = None"
    by simp
  have d: "sctp_chunk_is_data (ex_chunk 11 SCTP_CID_DATA 116)"
    by (simp add: sctp_chunk_is_data_def ex_chunk_def)
  have s: "asoc (transport ex_packet) \<noteq> None"
    by (simp add: ex_packet_def ex_transport_def sctp_packet_init_def sctp_packet_reset_def
        Let_def)
  from append_data_needs_asoc
    [of "ex_packet\<lparr>transport := ex_transport\<lparr>asoc := None\<rparr>\<rparr>"
        "ex_chunk 11 SCTP_CID_DATA 116" ex_env] n d
  have a: "sctp_packet_append_chunk ex_env (ex_packet\<lparr>transport := ex_transport\<lparr>asoc := None\<rparr>\<rparr>)
       (ex_chunk 11 SCTP_CID_DATA 116) = Inl NULL_DEREF"
    "sctp_packet_bundle_auth ex_env (ex_packet\<lparr>transport := ex_transport\<lparr>asoc := None\<rparr>\<rparr>)
       (ex_chunk 11 SCTP_CID_DATA 116) =
     Inr (SCTP_XMIT_OK, ex_packet\<lparr>transport := ex_transport\<lparr>asoc := None\<rparr>\<rparr>)"
    by blast+
  from append_data_needs_asoc [of ex_packet "ex_chunk 11 SCTP_CID_DATA 116" ex_env] s
  have "\<exists>r packet'. sctp_packet_append_chunk ex_env ex_packet (ex_chunk 11 SCTP_CID_DATA 116) =
        Inr (r, packet') \<and> asoc (transport packet') \<noteq> None"
    by blast
  with a show ?thesis by blast
qed


subsection \<open>The emitter\<close>

text \<open>
  C9. \<open>sctp_packet_transmit\<close> on a packet whose \<open>chunk_list\<close> is empty returns 0 at
  once: the packet comes back as it was given (so no field of the packet, of its
  transport or of its association has changed), no buffer is allocated, no chunk is freed
  and nothing is handed to the IP layer.
\<close>

theorem transmit_empty_is_noop:
  assumes "chunk_list packet = []"
  shows "sctp_packet_transmit env sk packet =
     Some (Inr \<lparr>err = 0, pkt = packet, freed = [], skbs_allocated = 0, wire = None\<rparr>)"
  using assms by (simp add: sctp_packet_transmit_def)

text \<open>The packet that \<open>sctp_packet_init\<close> leaves has no chunk.\<close>

theorem transmit_empty_is_noop_witness:
  "chunk_list ex_packet = [] \<and>
   sctp_packet_transmit ex_xenv ex_sk ex_packet =
     Some (Inr \<lparr>err = 0, pkt = ex_packet, freed = [], skbs_allocated = 0, wire = None\<rparr>)"
proof -
  have e: "chunk_list ex_packet = []"
    by (simp add: ex_packet_def sctp_packet_init_def sctp_packet_reset_def Let_def)
  from transmit_empty_is_noop [OF e, of ex_xenv ex_sk] e show ?thesis by simp
qed

subsection \<open>sctp_packet_transmit_chunk\<close>






subsection \<open>Failures of the emitter\<close>




subsection \<open>GSO emission\<close>





end
